theory Spec2Isabelle
  imports Main "HOL-Library.AList" "HOL-Library.Sublist"
begin

section \<open>Data model of \<^verbatim>\<open>src/internal/helpers.ts\<close>\<close>

text \<open>
  Strings are JavaScript strings restricted to the characters that occur in hex strings,
  library names and messages; \<^typ>\<open>string\<close> is a list of characters, so \<^const>\<open>take\<close>,
  \<^const>\<open>drop\<close> and \<open>@\<close> are \<^verbatim>\<open>substr(0, n)\<close>, \<^verbatim>\<open>substr(n)\<close> and \<^verbatim>\<open>+\<close>.
  Byte offsets and lengths of link references are the non-negative integers a compiler
  emits, hence \<^typ>\<open>nat\<close>.
\<close>

text \<open>One entry \<^verbatim>\<open>{ start, length }\<close> of a link-reference list.\<close>

record LinkReference =
  start :: nat
  length' :: nat

text \<open>\<^verbatim>\<open>interface Link { sourceName; libraryName; address }\<close>\<close>

record Link =
  sourceName :: string
  libraryName :: string
  address :: string

text \<open>
  A value of an ABI element; an element is an object, kept as the list of its
  properties in enumeration order.
\<close>

datatype abi_value =
    AStr string
  | ANum int
  | ABool bool
  | AArr "abi_value list"
  | AObj "(string \<times> abi_value) list"

type_synonym abi_element = "(string \<times> abi_value) list"

text \<open>
  The fields of hardhat's \<^verbatim>\<open>Artifact\<close> that the helpers read. An object is the list of
  its entries in the order \<^verbatim>\<open>Object.entries\<close> enumerates them; \<^verbatim>\<open>linkReferences\<close> is
  \<^const>\<open>None\<close> when the property is undefined (the source tests it before use).
\<close>

record Artifact =
  contractName :: string
  abi :: "abi_element list"
  bytecode :: string
  linkReferences :: "(string \<times> (string \<times> LinkReference list) list) list option"

text \<open>\<^verbatim>\<open>Libraries\<close>: user-given library identifier to address, in enumeration order.\<close>

type_synonym Libraries = "(string \<times> string) list"

text \<open>\<^verbatim>\<open>Map<string, Link>\<close>, in insertion order.\<close>

type_synonym LinkMap = "(string \<times> Link) list"

text \<open>
  Every \<^verbatim>\<open>throw\<close> of the source is one constructor, carrying the values its message
  interpolates. \<open>TypeError\<close> is the runtime error of reading a property of
  \<^verbatim>\<open>undefined\<close> or iterating over it; \<open>ExternalError\<close> is a failure raised by a
  collaborator (artifact store, provider).
\<close>

datatype error =
    InvalidAddress string string string
  | UnknownLibrary string string "string list"
  | AmbiguousLibraryName string string "string list"
  | DuplicateLinkEntry string string
  | MissingLibraries string "string list"
  | AbstractContractError string
  | NoNamedAccount string
  | NoSignerFound string
  | NoDeploymentPluginInstalled
  | TypeError
  | ExternalError string

section \<open>Messages\<close>

definition nl :: string where
  "nl = [CHR 0x0A]"

definition apos :: string where
  "apos = [CHR 0x27]"

definition dquote :: string where
  "dquote = [CHR 0x22]"

text \<open>\<^verbatim>\<open>xs.join(sep)\<close>\<close>

fun join :: "string \<Rightarrow> string list \<Rightarrow> string" where
  "join sep [] = []"
| "join sep [x] = x"
| "join sep (x # y # ys) = x @ sep @ join sep (y # ys)"

text \<open>\<^verbatim>\<open>.map((x) => `* ${x}`).join("\n")\<close>\<close>

definition bullets :: "string list \<Rightarrow> string" where
  "bullets xs = join nl (map (\<lambda>x. ''* '' @ x) xs)"

fun message :: "error \<Rightarrow> string" where
  "message (InvalidAddress cn linkedLibraryName linkedLibraryAddress) =
     ''You tried to link the contract '' @ cn @ '' with the library '' @ linkedLibraryName
       @ '', but provided this invalid address: '' @ linkedLibraryAddress"
| "message (UnknownLibrary cn linkedLibraryName libraryFQNames) =
     ''You tried to link the contract '' @ cn @ '' with '' @ linkedLibraryName
       @ '', which is not one of its libraries.'' @ nl
       @ (if libraryFQNames \<noteq> []
          then ''The libraries needed are:'' @ nl @ bullets libraryFQNames
          else ''This contract doesn'' @ apos @ ''t need linking any libraries.'')"
| "message (AmbiguousLibraryName linkedLibraryName cn matchingNeededLibrariesFQNs) =
     ''The library name '' @ linkedLibraryName @ '' is ambiguous for the contract '' @ cn
       @ ''.'' @ nl
       @ ''It may resolve to one of the following libraries:'' @ nl
       @ bullets matchingNeededLibrariesFQNs @ nl @ nl
       @ ''To fix this, choose one of these fully qualified library names and replace where appropriate.''"
| "message (DuplicateLinkEntry libName neededLibraryFQN) =
     ''The library names '' @ libName @ '' and '' @ neededLibraryFQN
       @ '' refer to the same library and were given as two separate library links.'' @ nl
       @ ''Remove one of them and review your library links before proceeding.''"
| "message (MissingLibraries cn missingLibraries) =
     ''The contract '' @ cn @ '' is missing links for the following libraries:'' @ nl
       @ bullets missingLibraries @ nl @ nl
       @ ''Learn more about linking contracts at https://hardhat.org/plugins/nomiclabs-hardhat-ethers.html#library-linking''
       @ nl"
| "message (AbstractContractError cn) =
     ''You are trying to create a contract factory for the contract '' @ cn
       @ '', which is abstract and can'' @ apos @ ''t be deployed.'' @ nl
       @ ''If you want to call a contract using '' @ cn @ '' as its interface use the ''
       @ dquote @ ''getContractAt'' @ dquote @ '' function instead.''"
| "message (NoNamedAccount name) = ''no account named '' @ name"
| "message (NoSignerFound name) = ''no signer for '' @ name"
| "message NoDeploymentPluginInstalled =
     ''No Deployment Plugin Installed, try '' @ apos @ ''import '' @ dquote @ ''hardhat-deploy''
       @ dquote @ apos"
| "message TypeError = ''TypeError''"
| "message (ExternalError m) = m"

section \<open>Library linking\<close>

text \<open>\<^verbatim>\<open>`${lib.sourceName}:${lib.libName}`\<close> of a needed library \<open>(sourceName, libName)\<close>.\<close>

definition fqn :: "string \<times> string \<Rightarrow> string" where
  "fqn lib = fst lib @ '':'' @ snd lib"

text \<open>
  The first loop of \<^verbatim>\<open>collectLibrariesAndLink\<close>: one pair \<open>(sourceName, libName)\<close> for
  every library key of every source entry, in enumeration order.
\<close>

definition neededLibraries :: "Artifact \<Rightarrow> (string \<times> string) list" where
  "neededLibraries artifact =
     (case linkReferences artifact of
        None \<Rightarrow> []
      | Some refs \<Rightarrow>
          concat (map (\<lambda>(sourceName, sourceLibraries).
                         map (\<lambda>(libName, occurrences). (sourceName, libName)) sourceLibraries)
                      refs))"

definition matchingNeededLibraries :: "(string \<times> string) list \<Rightarrow> string \<Rightarrow> (string \<times> string) list" where
  "matchingNeededLibraries needed linkedLibraryName =
     filter (\<lambda>lib. snd lib = linkedLibraryName \<or> fqn lib = linkedLibraryName) needed"

text \<open>\<^verbatim>\<open>linksToApply.has(key)\<close>\<close>

definition has :: "LinkMap \<Rightarrow> string \<Rightarrow> bool" where
  "has linksToApply key = (key \<in> fst ` set linksToApply)"

text \<open>
  The body of the loop over \<^verbatim>\<open>Object.entries(libraries)\<close>, on the map built so far.
  \<open>isAddress\<close> is ethers' \<^verbatim>\<open>utils.isAddress\<close>, a parameter. \<^const>\<open>AList.update\<close> is
  \<^verbatim>\<open>Map.set\<close>: a new key goes to the end, an existing one keeps its place.
\<close>

definition resolveBinding ::
  "(string \<Rightarrow> bool) \<Rightarrow> Artifact \<Rightarrow> LinkMap \<Rightarrow> string \<times> string \<Rightarrow> error + LinkMap" where
  "resolveBinding isAddress artifact linksToApply binding =
     (let linkedLibraryName = fst binding;
          linkedLibraryAddress = snd binding;
          needed = neededLibraries artifact
      in if \<not> isAddress linkedLibraryAddress
         then Inl (InvalidAddress (contractName artifact) linkedLibraryName linkedLibraryAddress)
         else
           let matching = matchingNeededLibraries needed linkedLibraryName
           in if length matching = 0
              then Inl (UnknownLibrary (contractName artifact) linkedLibraryName (map fqn needed))
              else if length matching > 1
              then Inl (AmbiguousLibraryName linkedLibraryName (contractName artifact)
                          (map fqn matching))
              else
                let neededLibrary = hd matching;
                    neededLibraryFQN = fqn neededLibrary
                in if has linksToApply neededLibraryFQN
                   then Inl (DuplicateLinkEntry (snd neededLibrary) neededLibraryFQN)
                   else Inr (AList.update neededLibraryFQN
                               \<lparr>sourceName = fst neededLibrary,
                                libraryName = snd neededLibrary,
                                address = linkedLibraryAddress\<rparr>
                               linksToApply))"

text \<open>The loop itself: the first error ends it.\<close>

fun resolveLinks ::
  "(string \<Rightarrow> bool) \<Rightarrow> Artifact \<Rightarrow> LinkMap \<Rightarrow> Libraries \<Rightarrow> error + LinkMap" where
  "resolveLinks isAddress artifact linksToApply [] = Inr linksToApply"
| "resolveLinks isAddress artifact linksToApply (binding # rest) =
     (case resolveBinding isAddress artifact linksToApply binding of
        Inl e \<Rightarrow> Inl e
      | Inr linksToApply' \<Rightarrow> resolveLinks isAddress artifact linksToApply' rest)"

text \<open>
  One assignment of the inner loop of \<^verbatim>\<open>linkBytecode\<close>:
  \<^verbatim>\<open>bytecode.substr(0, 2 + start * 2) + address.substr(2) + bytecode.substr(2 + (start + length) * 2)\<close>
\<close>

definition patch :: "string \<Rightarrow> string \<Rightarrow> LinkReference \<Rightarrow> string" where
  "patch addr code ref =
     take (2 + start ref * 2) code @ drop 2 addr @ drop (2 + (start ref + length' ref) * 2) code"

text \<open>
  \<^verbatim>\<open>artifact.linkReferences[sourceName][libraryName]\<close>, iterated by \<^verbatim>\<open>for ... of\<close>:
  a missing map, source entry or library entry raises a \<open>TypeError\<close>.
\<close>

definition lookupLinkReferences :: "Artifact \<Rightarrow> string \<Rightarrow> string \<Rightarrow> error + LinkReference list" where
  "lookupLinkReferences artifact sName lName =
     (case linkReferences artifact of
        None \<Rightarrow> Inl TypeError
      | Some refs \<Rightarrow>
          (case map_of refs sName of
             None \<Rightarrow> Inl TypeError
           | Some sourceLibraries \<Rightarrow>
               (case map_of sourceLibraries lName of
                  None \<Rightarrow> Inl TypeError
                | Some occurrences \<Rightarrow> Inr occurrences)))"

text \<open>The outer loop of \<^verbatim>\<open>linkBytecode\<close>, on the bytecode patched so far.\<close>

fun linkLoop :: "Artifact \<Rightarrow> string \<Rightarrow> Link list \<Rightarrow> error + string" where
  "linkLoop artifact code [] = Inr code"
| "linkLoop artifact code (link # rest) =
     (case lookupLinkReferences artifact (sourceName link) (libraryName link) of
        Inl e \<Rightarrow> Inl e
      | Inr occurrences \<Rightarrow> linkLoop artifact (foldl (patch (address link)) code occurrences) rest)"

definition linkBytecode :: "Artifact \<Rightarrow> Link list \<Rightarrow> error + string" where
  "linkBytecode artifact libraries = linkLoop artifact (bytecode artifact) libraries"

definition collectLibrariesAndLink ::
  "(string \<Rightarrow> bool) \<Rightarrow> Artifact \<Rightarrow> Libraries \<Rightarrow> error + string" where
  "collectLibrariesAndLink isAddress artifact libraries =
     (case resolveLinks isAddress artifact [] libraries of
        Inl e \<Rightarrow> Inl e
      | Inr linksToApply \<Rightarrow>
          if length linksToApply < length (neededLibraries artifact)
          then Inl (MissingLibraries (contractName artifact)
                      (filter (\<lambda>libFQName. \<not> has linksToApply libFQName)
                              (map fqn (neededLibraries artifact))))
          else linkBytecode artifact (map snd linksToApply))"

section \<open>Gas annotation\<close>

text \<open>\<^verbatim>\<open>networkConfig.gas\<close>: \<^verbatim>\<open>"auto"\<close>, a number, or undefined (\<^const>\<open>None\<close>).\<close>

datatype gas_setting = Auto | Fixed int

record NetworkConfig =
  gas :: "gas_setting option"



section \<open>Signers, artifacts and factories\<close>

text \<open>
  What the helpers read of the runtime environment. \<open>'s\<close> is the type of signer
  objects. A collaborator that is probed with \<^verbatim>\<open>!== undefined\<close> is an option; a call
  that can reject returns a sum.
  \<^item> \<open>deploymentsGetArtifact\<close>: \<^verbatim>\<open>hre.deployments.getArtifact\<close>, \<^const>\<open>None\<close> without
    \<^verbatim>\<open>hre.deployments\<close>;
  \<^item> \<open>readArtifact\<close>: \<^verbatim>\<open>hre.artifacts.readArtifact\<close>;
  \<^item> \<open>ethersGetSigners\<close>: \<^verbatim>\<open>hre.ethers.getSigners()\<close>;
  \<^item> \<open>createSigner\<close>: \<^verbatim>\<open>SignerWithAddress.create(hre.ethers.provider.getSigner(account))\<close>,
    with \<^const>\<open>None\<close> for a result that the callers' truth tests reject;
  \<^item> \<open>networkConfig\<close>: \<^verbatim>\<open>hre.network.config\<close>;
  \<^item> \<open>getNamedAccounts\<close>: the result of \<^verbatim>\<open>hre.getNamedAccounts()\<close>, \<^const>\<open>None\<close> when the
    function is undefined.
\<close>

record 's HardhatRuntimeEnvironment =
  deploymentsGetArtifact :: "(string \<Rightarrow> error + Artifact) option"
  readArtifact :: "string \<Rightarrow> error + Artifact"
  ethersGetSigners :: "error + 's list"
  createSigner :: "string \<Rightarrow> error + 's option"
  networkConfig :: NetworkConfig
  getNamedAccounts :: "(error + (string \<times> string) list) option"

text \<open>A signer argument \<^verbatim>\<open>ethers.Signer | string\<close>; undefined is \<^const>\<open>None\<close>.\<close>

datatype 's signer_arg = SignerObject 's | SignerAddress string

text \<open>
  \<^verbatim>\<open>FactoryOptions\<close> is declared in \<^verbatim>\<open>../types\<close>; its two properties are the ones
  \<^verbatim>\<open>getContractFactoryByName\<close> reads.
\<close>

record 's FactoryOptions =
  signer :: "'s signer_arg option"
  libraries :: "Libraries option"




text \<open>\<^verbatim>\<open>_getSigner\<close>\<close>

definition underscore_getSigner :: "'s HardhatRuntimeEnvironment \<Rightarrow> string \<Rightarrow> error + 's option" where
  "underscore_getSigner hre account = createSigner hre account"


definition getNamedSignerOrNull :: "'s HardhatRuntimeEnvironment \<Rightarrow> string \<Rightarrow> error + 's option" where
  "getNamedSignerOrNull hre name =
     (case getNamedAccounts hre of
        None \<Rightarrow> Inl NoDeploymentPluginInstalled
      | Some (Inl e) \<Rightarrow> Inl e
      | Some (Inr namedAccounts) \<Rightarrow>
          (case map_of namedAccounts name of
             None \<Rightarrow> Inl (NoNamedAccount name)
           | Some addr \<Rightarrow>
               if addr = [] then Inl (NoNamedAccount name)
               else
                 (case underscore_getSigner hre addr of
                    Inl e \<Rightarrow> Inl e
                  | Inr (Some found) \<Rightarrow> Inr (Some found)
                  | Inr None \<Rightarrow> Inr None)))"

definition getNamedSigner :: "'s HardhatRuntimeEnvironment \<Rightarrow> string \<Rightarrow> error + 's" where
  "getNamedSigner hre name =
     (case getNamedSignerOrNull hre name of
        Inl e \<Rightarrow> Inl e
      | Inr None \<Rightarrow> Inl (NoSignerFound name)
      | Inr (Some found) \<Rightarrow> Inr found)"




section \<open>Predicates on resolved links and patched bytecode\<close>

text \<open>
  What the binding loop maintains: the keys of the map are distinct, and each entry is a
  needed library stored under its fully qualified name.
\<close>

definition resolvedFor :: "(string \<times> string) list \<Rightarrow> LinkMap \<Rightarrow> bool" where
  "resolvedFor needed linksToApply =
     (distinct (map fst linksToApply)
      \<and> list_all (\<lambda>entry. (sourceName (snd entry), libraryName (snd entry)) \<in> set needed
                     \<and> fst entry = fqn (sourceName (snd entry), libraryName (snd entry)))
           linksToApply)"

text \<open>
  The assignments \<^verbatim>\<open>linkBytecode\<close> performs, in order: each link's address with each of
  the occurrences the artifact declares for it. The lookup is the one of the source.
\<close>

fun patchPlan :: "Artifact \<Rightarrow> Link list \<Rightarrow> error + (string \<times> LinkReference) list" where
  "patchPlan artifact [] = Inr []"
| "patchPlan artifact (link # rest) =
     (case lookupLinkReferences artifact (sourceName link) (libraryName link) of
        Inl e \<Rightarrow> Inl e
      | Inr occurrences \<Rightarrow>
          (case patchPlan artifact rest of
             Inl e \<Rightarrow> Inl e
           | Inr plan \<Rightarrow> Inr (map (Pair (address link)) occurrences @ plan)))"






text \<open>
  An object has each key once: the source entries of a link-reference map have distinct
  names, and so have the libraries of each source.
\<close>

definition uniqueKeys :: "Artifact \<Rightarrow> bool" where
  "uniqueKeys artifact =
     (case linkReferences artifact of
        None \<Rightarrow> True
      | Some refs \<Rightarrow>
          distinct (map fst refs) \<and> list_all (\<lambda>entry. distinct (map fst (snd entry))) refs)"


section \<open>Concrete inputs\<close>

text \<open>
  A syntactic address test that stands in for \<^verbatim>\<open>utils.isAddress\<close> at concrete inputs:
  \<^verbatim>\<open>0x\<close> followed by 40 hexadecimal digits.
\<close>

definition hexDigit :: "char \<Rightarrow> bool" where
  "hexDigit c = (c \<in> set ''0123456789abcdefABCDEF'')"

definition hexAddress :: "string \<Rightarrow> bool" where
  "hexAddress a = (length a = 42 \<and> take 2 a = ''0x'' \<and> list_all hexDigit (drop 2 a))"

text \<open>Addresses, link references and artifacts used at concrete inputs.\<close>

definition addrA :: string where
  "addrA = ''0xaaaaaaaaaaaaaaaaaaaaaaaaaaaaaaaaaaaaaaaa''"

definition addrB :: string where
  "addrB = ''0xbbbbbbbbbbbbbbbbbbbbbbbbbbbbbbbbbbbbbbbb''"

definition slot :: "nat \<Rightarrow> nat \<Rightarrow> LinkReference" where
  "slot s n = \<lparr>start = s, length' = n\<rparr>"

definition twoLibs :: Artifact where
  "twoLibs = \<lparr>contractName = ''Token'', abi = [], bytecode = ''0x'' @ replicate 120 CHR ''0'',
     linkReferences = Some [(''contracts/Libs.sol'', [(''A'', [slot 0 20]), (''B'', [slot 30 20])])]\<rparr>"

definition sameName :: Artifact where
  "sameName = \<lparr>contractName = ''Token'', abi = [], bytecode = ''0x'' @ replicate 120 CHR ''0'',
     linkReferences = Some [(''File1'', [(''Lib'', [slot 0 20])]), (''File2'', [(''Lib'', [slot 30 20])])]\<rparr>"

definition oneLib :: Artifact where
  "oneLib = \<lparr>contractName = ''Token'', abi = [], bytecode = ''0x'' @ replicate 120 CHR ''0'',
     linkReferences = Some [(''File1'', [(''Lib'', [slot 0 20])])]\<rparr>"

text \<open>
  Resolved links for the libraries \<open>A\<close> and \<open>B\<close>, and artifacts whose occurrences
  overlap, are shorter than an address, or end past the bytecode.
\<close>

definition linkA :: Link where
  "linkA = \<lparr>sourceName = ''contracts/Libs.sol'', libraryName = ''A'', address = addrA\<rparr>"

definition linkB :: Link where
  "linkB = \<lparr>sourceName = ''contracts/Libs.sol'', libraryName = ''B'', address = addrB\<rparr>"


definition shortSlot :: Artifact where
  "shortSlot = \<lparr>contractName = ''Token'', abi = [], bytecode = ''0x00ff'',
     linkReferences = Some [(''contracts/Libs.sol'', [(''A'', [slot 0 1])])]\<rparr>"

definition pastEnd :: Artifact where
  "pastEnd = \<lparr>contractName = ''Token'', abi = [], bytecode = ''0x00ff'',
     linkReferences = Some [(''contracts/Libs.sol'', [(''A'', [slot 5 20])])]\<rparr>"








section \<open>Auxiliary facts\<close>

subsection \<open>The binding loop\<close>

text \<open>
  The loop over a list of bindings is the loop over its first part followed by the loop
  over the rest; an error of the loop body at a binding that is reached is the error of
  linking.
\<close>

lemma resolveLinks_append:
  "resolveLinks isAddress artifact linksToApply (earlier @ rest) =
     (case resolveLinks isAddress artifact linksToApply earlier of
        Inl e \<Rightarrow> Inl e
      | Inr linksToApply' \<Rightarrow> resolveLinks isAddress artifact linksToApply' rest)"
  by (induction earlier arbitrary: linksToApply) (auto split: sum.splits)

lemma collect_reaches:
  assumes "resolveLinks isAddress artifact [] earlier = Inr linksToApply"
    and "resolveBinding isAddress artifact linksToApply binding = Inl e"
  shows "collectLibrariesAndLink isAddress artifact (earlier @ binding # rest) = Inl e"
  using assms by (simp add: collectLibrariesAndLink_def resolveLinks_append)

subsection \<open>Bullet lists in messages\<close>

text \<open>
  Every listed name is a line \<^verbatim>\<open>* name\<close> of the message.
\<close>

lemma sublist_mid: "sublist x m \<Longrightarrow> sublist x (p @ m @ s)"
proof -
  assume "sublist x m"
  then obtain ps ss where "m = ps @ x @ ss" by (auto simp: sublist_def)
  then have "p @ m @ s = (p @ ps) @ x @ (ss @ s)" by simp
  then show ?thesis unfolding sublist_def by blast
qed

lemma sublist_join:
  "x \<in> set xs \<Longrightarrow> sublist x (join sep xs)"
proof (induction sep xs rule: join.induct)
  case (1 sep)
  then show ?case by simp
next
  case (2 sep x)
  then show ?case by simp
next
  case (3 sep y z zs)
  show ?case
  proof (cases "x = y")
    case True
    then show ?thesis by simp
  next
    case False
    with 3 have "sublist x (join sep (z # zs))" by simp
    then have "sublist x ((y @ sep) @ join sep (z # zs) @ [])"
      by (rule sublist_mid)
    then show ?thesis by simp
  qed
qed

lemma sublist_bullets:
  "x \<in> set xs \<Longrightarrow> sublist (''* '' @ x) (bullets xs)"
  unfolding bullets_def by (rule sublist_join) simp

lemma message_MissingLibraries_lists:
  assumes "f \<in> set missing"
  shows "sublist (''* '' @ f) (message (MissingLibraries cn missing))"
proof -
  have "sublist (''* '' @ f) (bullets missing)"
    using assms by (rule sublist_bullets)
  then have "sublist (''* '' @ f) (p @ bullets missing @ s)" for p s
    by (rule sublist_mid)
  from this [of "''The contract '' @ cn @ '' is missing links for the following libraries:'' @ nl"]
  show ?thesis by simp
qed

lemma message_AmbiguousLibraryName_lists:
  assumes "f \<in> set candidates"
  shows "sublist (''* '' @ f) (message (AmbiguousLibraryName n cn candidates))"
proof -
  have "sublist (''* '' @ f) (bullets candidates)"
    using assms by (rule sublist_bullets)
  then have "sublist (''* '' @ f) (p @ bullets candidates @ s)" for p s
    by (rule sublist_mid)
  from this [of "''The library name '' @ n @ '' is ambiguous for the contract '' @ cn
       @ ''.'' @ nl @ ''It may resolve to one of the following libraries:'' @ nl"]
  show ?thesis by simp
qed

subsection \<open>The invariant of the binding loop\<close>

text \<open>
  The loop body keeps \<^const>\<open>resolvedFor\<close>: it adds a needed library under a key that the
  map does not have yet.
\<close>

lemma update_fresh:
  "key \<notin> fst ` set al \<Longrightarrow> AList.update key v al = al @ [(key, v)]"
  by (induction al) auto

lemma hd_matching_needed:
  assumes "matchingNeededLibraries needed name \<noteq> []"
  shows "hd (matchingNeededLibraries needed name) \<in> set needed"
proof -
  from assms have "hd (matchingNeededLibraries needed name) \<in> set (matchingNeededLibraries needed name)"
    by (rule hd_in_set)
  then show ?thesis by (simp add: matchingNeededLibraries_def)
qed

lemma resolveBinding_resolvedFor:
  assumes "resolvedFor (neededLibraries artifact) linksToApply"
    and "resolveBinding isAddress artifact linksToApply binding = Inr linksToApply'"
  shows "resolvedFor (neededLibraries artifact) linksToApply'"
proof -
  let ?matching = "matchingNeededLibraries (neededLibraries artifact) (fst binding)"
  let ?lib = "hd ?matching"
  from assms(2) have nonempty: "?matching \<noteq> []"
    by (auto simp: resolveBinding_def Let_def split: if_splits)
  from assms(2) have fresh: "\<not> has linksToApply (fqn ?lib)"
    by (auto simp: resolveBinding_def Let_def split: if_splits)
  from assms(2) have result: "linksToApply' =
      AList.update (fqn ?lib) \<lparr>sourceName = fst ?lib, libraryName = snd ?lib, address = snd binding\<rparr> linksToApply"
    by (auto simp: resolveBinding_def Let_def split: if_splits)
  from fresh have "linksToApply' =
      linksToApply @ [(fqn ?lib, \<lparr>sourceName = fst ?lib, libraryName = snd ?lib, address = snd binding\<rparr>)]"
    unfolding result has_def by (rule update_fresh)
  moreover have "?lib \<in> set (neededLibraries artifact)"
    using nonempty by (rule hd_matching_needed)
  ultimately show ?thesis
    using assms(1) fresh by (simp add: resolvedFor_def has_def)
qed

lemma resolveLinks_resolvedFor:
  assumes "resolvedFor (neededLibraries artifact) linksToApply"
    and "resolveLinks isAddress artifact linksToApply bindings = Inr linksToApply'"
  shows "resolvedFor (neededLibraries artifact) linksToApply'"
  using assms
proof (induction bindings arbitrary: linksToApply)
  case Nil
  then show ?case by simp
next
  case (Cons binding rest)
  from Cons.prems(2) obtain mid where
    step: "resolveBinding isAddress artifact linksToApply binding = Inr mid" and
    tail: "resolveLinks isAddress artifact mid rest = Inr linksToApply'"
    by (auto split: sum.splits)
  from Cons.prems(1) step have "resolvedFor (neededLibraries artifact) mid"
    by (rule resolveBinding_resolvedFor)
  then show ?case using tail by (rule Cons.IH)
qed

lemma resolvedFor_keys:
  assumes "resolvedFor needed linksToApply"
  shows "fst ` set linksToApply = fqn ` (\<lambda>entry. (sourceName (snd entry), libraryName (snd entry))) ` set linksToApply"
    and "(\<lambda>entry. (sourceName (snd entry), libraryName (snd entry))) ` set linksToApply \<subseteq> set needed"
  using assms by (auto simp: resolvedFor_def list_all_iff image_iff)

subsection \<open>The loops of linkBytecode as one fold\<close>



subsection \<open>One assignment\<close>










subsection \<open>All assignments\<close>




subsection \<open>The gas loop\<close>





subsection \<open>The concrete inputs, evaluated\<close>

lemma hexAddress_addrA: "hexAddress addrA"
  by (simp add: hexAddress_def hexDigit_def addrA_def)

lemma hexAddress_addrB: "hexAddress addrB"
  by (simp add: hexAddress_def hexDigit_def addrB_def)

lemma needed_twoLibs: "neededLibraries twoLibs = [(''contracts/Libs.sol'', ''A''), (''contracts/Libs.sol'', ''B'')]"
  by (simp add: neededLibraries_def twoLibs_def)

lemma name_twoLibs: "contractName twoLibs = ''Token''"
  by (simp add: twoLibs_def)

lemma needed_sameName: "neededLibraries sameName = [(''File1'', ''Lib''), (''File2'', ''Lib'')]"
  by (simp add: neededLibraries_def sameName_def)

lemma name_sameName: "contractName sameName = ''Token''"
  by (simp add: sameName_def)

lemma needed_oneLib: "neededLibraries oneLib = [(''File1'', ''Lib'')]"
  by (simp add: neededLibraries_def oneLib_def)

lemma matching_sameName_Lib:
  "matchingNeededLibraries (neededLibraries sameName) ''Lib'' = [(''File1'', ''Lib''), (''File2'', ''Lib'')]"
  by (simp add: needed_sameName matchingNeededLibraries_def fqn_def)

lemma resolve_twoLibs_A:
  "resolveLinks hexAddress twoLibs [] [(''A'', addrA)] =
     Inr [(''contracts/Libs.sol:A'', \<lparr>sourceName = ''contracts/Libs.sol'', libraryName = ''A'', address = addrA\<rparr>)]"
  by (simp add: resolveBinding_def Let_def needed_twoLibs matchingNeededLibraries_def fqn_def
      hexAddress_addrA has_def)

lemma resolve_oneLib_Lib:
  "resolveLinks hexAddress oneLib [] [(''Lib'', addrA)] =
     Inr [(''File1:Lib'', \<lparr>sourceName = ''File1'', libraryName = ''Lib'', address = addrA\<rparr>)]"
  by (simp add: resolveBinding_def Let_def needed_oneLib matchingNeededLibraries_def fqn_def
      hexAddress_addrA has_def)

lemma matching_oneLib_fq:
  "matchingNeededLibraries (neededLibraries oneLib) ''File1:Lib'' = [(''File1'', ''Lib'')]"
  by (simp add: needed_oneLib matchingNeededLibraries_def fqn_def)



lemma collect_twoLibs:
  "collectLibrariesAndLink hexAddress twoLibs [(''A'', addrA), (''B'', addrB)] =
     Inr (''0x'' @ replicate 40 CHR ''a'' @ replicate 20 CHR ''0'' @ replicate 40 CHR ''b'' @ replicate 20 CHR ''0'')"
  by code_simp

lemma resolve_twoLibs:
  "resolveLinks hexAddress twoLibs [] [(''A'', addrA), (''B'', addrB)] =
     Inr [(''contracts/Libs.sol:A'', linkA), (''contracts/Libs.sol:B'', linkB)]"
  by code_simp



section \<open>Resolved links always have their link references\<close>

text \<open>
  The links that \<^verbatim>\<open>collectLibrariesAndLink\<close> passes to \<^verbatim>\<open>linkBytecode\<close> are needed
  libraries, so both property reads of \<^verbatim>\<open>artifact.linkReferences[sourceName][libraryName]\<close>
  succeed: the \<open>TypeError\<close> of the model is never the result of linking.
\<close>

lemma needed_lookup:
  assumes "uniqueKeys artifact" and "(sName, lName) \<in> set (neededLibraries artifact)"
  shows "\<exists>occurrences. lookupLinkReferences artifact sName lName = Inr occurrences"
proof -
  from assms(2) obtain refs where refs: "linkReferences artifact = Some refs"
    by (cases "linkReferences artifact") (auto simp: neededLibraries_def)
  with assms(2) obtain sourceLibraries occurrences where
    source: "(sName, sourceLibraries) \<in> set refs" and lib: "(lName, occurrences) \<in> set sourceLibraries"
    by (auto simp: neededLibraries_def)
  from assms(1) refs have keys: "distinct (map fst refs)"
    and inner: "list_all (\<lambda>entry. distinct (map fst (snd entry))) refs"
    by (simp_all add: uniqueKeys_def)
  from keys source have "map_of refs sName = Some sourceLibraries" by simp
  moreover from inner source have "distinct (map fst sourceLibraries)"
    by (auto simp: list_all_iff)
  with lib have "map_of sourceLibraries lName = Some occurrences" by simp
  ultimately show ?thesis using refs by (simp add: lookupLinkReferences_def)
qed

lemma resolved_patchPlan:
  assumes "uniqueKeys artifact"
    and "list_all (\<lambda>link. (sourceName link, libraryName link) \<in> set (neededLibraries artifact)) links"
  shows "\<exists>plan. patchPlan artifact links = Inr plan"
  using assms(2)
proof (induction links)
  case Nil
  then show ?case by simp
next
  case (Cons link rest)
  then have "(sourceName link, libraryName link) \<in> set (neededLibraries artifact)" by simp
  with assms(1) obtain occurrences where
    "lookupLinkReferences artifact (sourceName link) (libraryName link) = Inr occurrences"
    using needed_lookup by blast
  moreover from Cons obtain plan where "patchPlan artifact rest = Inr plan" by auto
  ultimately show ?case by simp
qed

lemma linkBytecode_patchPlan_error:
  "linkBytecode artifact links = Inl e \<Longrightarrow> patchPlan artifact links = Inl e"
proof -
  have "linkLoop artifact code links = Inl e \<Longrightarrow> patchPlan artifact links = Inl e" for code
  proof (induction links arbitrary: code)
    case Nil
    then show ?case by simp
  next
    case (Cons link rest)
    then show ?case by (auto split: sum.splits)
  qed
  then show "linkBytecode artifact links = Inl e \<Longrightarrow> patchPlan artifact links = Inl e"
    by (simp add: linkBytecode_def)
qed

lemma collect_no_TypeError:
  assumes "uniqueKeys artifact"
  shows "collectLibrariesAndLink isAddress artifact bindings \<noteq> Inl TypeError"
proof
  assume failed: "collectLibrariesAndLink isAddress artifact bindings = Inl TypeError"
  have step: "resolveBinding isAddress artifact links binding \<noteq> Inl TypeError" for links binding
    by (simp add: resolveBinding_def Let_def)
  have loop: "resolveLinks isAddress artifact links bs \<noteq> Inl TypeError" for links bs
    by (induction bs arbitrary: links) (use step in \<open>auto split: sum.splits\<close>)
  from failed loop obtain linksToApply where
    resolved: "resolveLinks isAddress artifact [] bindings = Inr linksToApply" and
    linked: "linkBytecode artifact (map snd linksToApply) = Inl TypeError"
    by (auto simp: collectLibrariesAndLink_def split: sum.splits if_splits)
  have "resolvedFor (neededLibraries artifact) []" by (simp add: resolvedFor_def)
  then have "resolvedFor (neededLibraries artifact) linksToApply"
    using resolved by (rule resolveLinks_resolvedFor)
  then have "list_all (\<lambda>link. (sourceName link, libraryName link) \<in> set (neededLibraries artifact))
               (map snd linksToApply)"
    by (simp add: resolvedFor_def list_all_iff)
  with assms obtain plan where "patchPlan artifact (map snd linksToApply) = Inr plan"
    using resolved_patchPlan by blast
  moreover from linked have "patchPlan artifact (map snd linksToApply) = Inl TypeError"
    by (rule linkBytecode_patchPlan_error)
  ultimately show False by simp
qed

section \<open>No-op linking\<close>

text \<open>
  Claim C7. An artifact whose link-reference map is empty, linked with no bindings,
  succeeds and the result is the artifact's own bytecode.
\<close>

theorem noop_linking:
  assumes "linkReferences artifact = Some []"
  shows "collectLibrariesAndLink isAddress artifact [] = Inr (bytecode artifact)"
  using assms
  by (simp add: collectLibrariesAndLink_def neededLibraries_def linkBytecode_def)

theorem noop_linking_witness:
  "linkReferences \<lparr>contractName = ''Token'', abi = [], bytecode = ''0x6080'', linkReferences = Some []\<rparr> = Some []
   \<and> collectLibrariesAndLink (\<lambda>a. True)
       \<lparr>contractName = ''Token'', abi = [], bytecode = ''0x6080'', linkReferences = Some []\<rparr> []
     = Inr ''0x6080''"
  using noop_linking [of "\<lparr>contractName = ''Token'', abi = [], bytecode = ''0x6080'', linkReferences = Some []\<rparr>" "\<lambda>a. True"]
  by simp

section \<open>Completeness of the bindings\<close>

text \<open>
  Claim C2. When every provided binding has been resolved and the resolved links are
  fewer than the needed libraries, linking fails with the missing-libraries error; the
  error carries the fully qualified names of the needed libraries that are not keys of
  the resolved links, and its message has one bullet line for each of them.
\<close>

theorem missing_libraries:
  assumes "resolveLinks isAddress artifact [] bindings = Inr linksToApply"
    and "length linksToApply < length (neededLibraries artifact)"
  shows "collectLibrariesAndLink isAddress artifact bindings =
           Inl (MissingLibraries (contractName artifact)
                  (filter (\<lambda>f. \<not> has linksToApply f) (map fqn (neededLibraries artifact))))
         \<and> (\<forall>lib \<in> set (neededLibraries artifact). \<not> has linksToApply (fqn lib) \<longrightarrow>
               sublist (''* '' @ fqn lib)
                 (message (MissingLibraries (contractName artifact)
                    (filter (\<lambda>f. \<not> has linksToApply f) (map fqn (neededLibraries artifact))))))"
proof
  show "collectLibrariesAndLink isAddress artifact bindings =
           Inl (MissingLibraries (contractName artifact)
                  (filter (\<lambda>f. \<not> has linksToApply f) (map fqn (neededLibraries artifact))))"
    using assms by (simp add: collectLibrariesAndLink_def)
next
  show "\<forall>lib \<in> set (neededLibraries artifact). \<not> has linksToApply (fqn lib) \<longrightarrow>
               sublist (''* '' @ fqn lib)
                 (message (MissingLibraries (contractName artifact)
                    (filter (\<lambda>f. \<not> has linksToApply f) (map fqn (neededLibraries artifact)))))"
  proof (intro ballI impI)
    fix lib
    assume "lib \<in> set (neededLibraries artifact)" and "\<not> has linksToApply (fqn lib)"
    then have "fqn lib \<in> set (filter (\<lambda>f. \<not> has linksToApply f) (map fqn (neededLibraries artifact)))"
      by simp
    then show "sublist (''* '' @ fqn lib)
                 (message (MissingLibraries (contractName artifact)
                    (filter (\<lambda>f. \<not> has linksToApply f) (map fqn (neededLibraries artifact)))))"
      by (rule message_MissingLibraries_lists)
  qed
qed

theorem missing_libraries_witness:
  "resolveLinks hexAddress twoLibs [] [(''A'', addrA)] =
     Inr [(''contracts/Libs.sol:A'', \<lparr>sourceName = ''contracts/Libs.sol'', libraryName = ''A'', address = addrA\<rparr>)]
   \<and> length [(''contracts/Libs.sol:A'', \<lparr>sourceName = ''contracts/Libs.sol'', libraryName = ''A'', address = addrA\<rparr>)]
       < length (neededLibraries twoLibs)
   \<and> collectLibrariesAndLink hexAddress twoLibs [(''A'', addrA)] =
       Inl (MissingLibraries ''Token'' [''contracts/Libs.sol:B''])"
proof -
  let ?links = "[(''contracts/Libs.sol:A'', \<lparr>sourceName = ''contracts/Libs.sol'', libraryName = ''A'', address = addrA\<rparr>)]"
  have fewer: "length ?links < length (neededLibraries twoLibs)"
    by (simp add: needed_twoLibs)
  from missing_libraries [OF resolve_twoLibs_A fewer]
  have "collectLibrariesAndLink hexAddress twoLibs [(''A'', addrA)] =
          Inl (MissingLibraries (contractName twoLibs)
                 (filter (\<lambda>f. \<not> has ?links f) (map fqn (neededLibraries twoLibs))))"
    by (rule conjunct1)
  then have "collectLibrariesAndLink hexAddress twoLibs [(''A'', addrA)] =
       Inl (MissingLibraries ''Token'' [''contracts/Libs.sol:B''])"
    by (simp add: needed_twoLibs has_def fqn_def name_twoLibs)
  with resolve_twoLibs_A fewer show ?thesis by blast
qed

section \<open>Errors of one binding\<close>

text \<open>
  Claim C3, as amended. A binding that the loop reaches (the bindings before it
  resolved), whose address passes the address test and whose identifier matches more
  than one needed library by bare or fully qualified name, makes linking fail with the
  ambiguous-name error; the error carries the fully qualified names of all the matches
  and its message has one bullet line for each.
\<close>

theorem ambiguous_library_name:
  assumes "resolveLinks isAddress artifact [] earlier = Inr linksToApply"
    and "isAddress addr"
    and "length (matchingNeededLibraries (neededLibraries artifact) name) > 1"
  shows "collectLibrariesAndLink isAddress artifact (earlier @ (name, addr) # rest) =
           Inl (AmbiguousLibraryName name (contractName artifact)
                  (map fqn (matchingNeededLibraries (neededLibraries artifact) name)))
         \<and> (\<forall>lib \<in> set (matchingNeededLibraries (neededLibraries artifact) name).
               sublist (''* '' @ fqn lib)
                 (message (AmbiguousLibraryName name (contractName artifact)
                    (map fqn (matchingNeededLibraries (neededLibraries artifact) name)))))"
proof -
  have "resolveBinding isAddress artifact linksToApply (name, addr) =
          Inl (AmbiguousLibraryName name (contractName artifact)
                  (map fqn (matchingNeededLibraries (neededLibraries artifact) name)))"
    using assms(2,3) by (auto simp add: resolveBinding_def Let_def)
  with assms(1) have "collectLibrariesAndLink isAddress artifact (earlier @ (name, addr) # rest) =
           Inl (AmbiguousLibraryName name (contractName artifact)
                  (map fqn (matchingNeededLibraries (neededLibraries artifact) name)))"
    by (rule collect_reaches)
  moreover have "\<forall>lib \<in> set (matchingNeededLibraries (neededLibraries artifact) name).
               sublist (''* '' @ fqn lib)
                 (message (AmbiguousLibraryName name (contractName artifact)
                    (map fqn (matchingNeededLibraries (neededLibraries artifact) name))))"
    by (intro ballI message_AmbiguousLibraryName_lists) simp
  ultimately show ?thesis by blast
qed

theorem ambiguous_library_name_witness:
  "resolveLinks hexAddress sameName [] [] = Inr []
   \<and> hexAddress addrA
   \<and> length (matchingNeededLibraries (neededLibraries sameName) ''Lib'') > 1
   \<and> collectLibrariesAndLink hexAddress sameName [(''Lib'', addrA)] =
       Inl (AmbiguousLibraryName ''Lib'' ''Token'' [''File1:Lib'', ''File2:Lib''])"
proof -
  have reached: "resolveLinks hexAddress sameName [] [] = Inr []" by simp
  have many: "length (matchingNeededLibraries (neededLibraries sameName) ''Lib'') > 1"
    by (simp add: matching_sameName_Lib)
  from ambiguous_library_name [OF reached hexAddress_addrA many, of "[]"]
  have "collectLibrariesAndLink hexAddress sameName ([] @ (''Lib'', addrA) # []) =
           Inl (AmbiguousLibraryName ''Lib'' (contractName sameName)
                  (map fqn (matchingNeededLibraries (neededLibraries sameName) ''Lib'')))"
    by (rule conjunct1)
  then have "collectLibrariesAndLink hexAddress sameName [(''Lib'', addrA)] =
       Inl (AmbiguousLibraryName ''Lib'' ''Token'' [''File1:Lib'', ''File2:Lib''])"
    by (simp add: matching_sameName_Lib name_sameName fqn_def)
  with reached hexAddress_addrA many show ?thesis by blast
qed

text \<open>
  Claim C3 as stated does not hold: the address is tested before the name is matched, so
  an ambiguous identifier bound to an invalid address fails with the invalid-address
  error.
\<close>

theorem ambiguous_name_invalid_address:
  "length (matchingNeededLibraries (neededLibraries sameName) ''Lib'') = 2
   \<and> collectLibrariesAndLink hexAddress sameName [(''Lib'', ''not-an-address'')] =
       Inl (InvalidAddress ''Token'' ''Lib'' ''not-an-address'')"
  by (simp add: matching_sameName_Lib collectLibrariesAndLink_def resolveBinding_def
      hexAddress_def name_sameName)

text \<open>
  Claim C4. A binding that the loop reaches and that resolves (valid address, exactly
  one match) to a fully qualified name which an earlier binding of the same call has
  already resolved makes linking fail with the duplicate-link error.
\<close>

theorem duplicate_link_entry:
  assumes "resolveLinks isAddress artifact [] earlier = Inr linksToApply"
    and "isAddress addr"
    and "matchingNeededLibraries (neededLibraries artifact) name = [lib]"
    and "has linksToApply (fqn lib)"
  shows "collectLibrariesAndLink isAddress artifact (earlier @ (name, addr) # rest) =
           Inl (DuplicateLinkEntry (snd lib) (fqn lib))"
proof -
  have "resolveBinding isAddress artifact linksToApply (name, addr) =
          Inl (DuplicateLinkEntry (snd lib) (fqn lib))"
    using assms(2,3,4) by (simp add: resolveBinding_def Let_def)
  with assms(1) show ?thesis
    by (rule collect_reaches)
qed

theorem duplicate_link_entry_witness:
  "resolveLinks hexAddress oneLib [] [(''Lib'', addrA)] =
     Inr [(''File1:Lib'', \<lparr>sourceName = ''File1'', libraryName = ''Lib'', address = addrA\<rparr>)]
   \<and> hexAddress addrB
   \<and> matchingNeededLibraries (neededLibraries oneLib) ''File1:Lib'' = [(''File1'', ''Lib'')]
   \<and> has [(''File1:Lib'', \<lparr>sourceName = ''File1'', libraryName = ''Lib'', address = addrA\<rparr>)]
        (fqn (''File1'', ''Lib''))
   \<and> collectLibrariesAndLink hexAddress oneLib [(''Lib'', addrA), (''File1:Lib'', addrB)] =
       Inl (DuplicateLinkEntry ''Lib'' ''File1:Lib'')"
proof -
  let ?links = "[(''File1:Lib'', \<lparr>sourceName = ''File1'', libraryName = ''Lib'', address = addrA\<rparr>)]"
  have known: "has ?links (fqn (''File1'', ''Lib''))"
    by (simp add: has_def fqn_def)
  from duplicate_link_entry [OF resolve_oneLib_Lib hexAddress_addrB matching_oneLib_fq known, of "[]"]
  have "collectLibrariesAndLink hexAddress oneLib [(''Lib'', addrA), (''File1:Lib'', addrB)] =
       Inl (DuplicateLinkEntry ''Lib'' ''File1:Lib'')"
    by (simp add: fqn_def)
  with resolve_oneLib_Lib hexAddress_addrB matching_oneLib_fq known show ?thesis by blast
qed



section \<open>Patching the bytecode\<close>




text \<open>
  The other two conditions are needed as well: an occurrence of one byte is replaced by
  all 40 characters, so the string grows and what follows moves; an occurrence past the
  end appends the address.
\<close>

lemma linkBytecode_shortSlot:
  "linkBytecode shortSlot [linkA] = Inr ''0xaaaaaaaaaaaaaaaaaaaaaaaaaaaaaaaaaaaaaaaaff''"
  by code_simp

lemma linkBytecode_pastEnd:
  "linkBytecode pastEnd [linkA] = Inr ''0x00ffaaaaaaaaaaaaaaaaaaaaaaaaaaaaaaaaaaaaaaaa''"
  by code_simp

section \<open>The resolved links\<close>

text \<open>
  Claim C6. Whenever linking returns, the binding loop has returned a map whose size is
  the number of distinct (sourceName, libraryName) pairs of the link-reference map, whose
  keys (the fully qualified names) are pairwise distinct, and whose entries are exactly
  the needed pairs: none is missing.
\<close>

theorem resolved_links_cardinality:
  assumes "collectLibrariesAndLink isAddress artifact bindings = Inr linked"
  shows "\<exists>linksToApply.
           resolveLinks isAddress artifact [] bindings = Inr linksToApply
           \<and> length linksToApply = card (set (neededLibraries artifact))
           \<and> distinct (map fst linksToApply)
           \<and> (\<lambda>entry. (sourceName (snd entry), libraryName (snd entry))) ` set linksToApply
               = set (neededLibraries artifact)"
proof -
  let ?needed = "neededLibraries artifact"
  let ?pair = "\<lambda>entry::string \<times> Link. (sourceName (snd entry), libraryName (snd entry))"
  from assms obtain linksToApply where
    resolved: "resolveLinks isAddress artifact [] bindings = Inr linksToApply" and
    enough: "length ?needed \<le> length linksToApply"
    by (auto simp: collectLibrariesAndLink_def split: sum.splits if_splits)
  have "resolvedFor ?needed []" by (simp add: resolvedFor_def)
  then have inv: "resolvedFor ?needed linksToApply"
    using resolved by (rule resolveLinks_resolvedFor)
  then have dist: "distinct (map fst linksToApply)" by (simp add: resolvedFor_def)
  have keys: "fst ` set linksToApply = fqn ` ?pair ` set linksToApply"
    and sub: "?pair ` set linksToApply \<subseteq> set ?needed"
    using resolvedFor_keys [OF inv] by blast+
  have "length linksToApply = card (fst ` set linksToApply)"
    using dist by (metis distinct_card length_map set_map)
  also have "\<dots> = card (fqn ` ?pair ` set linksToApply)" by (simp only: keys [symmetric])
  also have "\<dots> \<le> card (?pair ` set linksToApply)" by (rule card_image_le) simp
  finally have le_pairs: "length linksToApply \<le> card (?pair ` set linksToApply)" .
  have "card (?pair ` set linksToApply) \<le> card (set ?needed)"
    using sub by (simp add: card_mono)
  moreover have "card (set ?needed) \<le> length ?needed" by (rule card_length)
  ultimately have eq: "card (?pair ` set linksToApply) = card (set ?needed)"
    and len: "length linksToApply = card (set ?needed)"
    using le_pairs enough by linarith+
  from sub eq have "?pair ` set linksToApply = set ?needed"
    by (simp add: card_subset_eq)
  with resolved len dist show ?thesis by blast
qed

theorem resolved_links_cardinality_witness:
  "collectLibrariesAndLink hexAddress twoLibs [(''A'', addrA), (''B'', addrB)] =
     Inr (''0x'' @ replicate 40 CHR ''a'' @ replicate 20 CHR ''0'' @ replicate 40 CHR ''b'' @ replicate 20 CHR ''0'')
   \<and> resolveLinks hexAddress twoLibs [] [(''A'', addrA), (''B'', addrB)] =
       Inr [(''contracts/Libs.sol:A'', linkA), (''contracts/Libs.sol:B'', linkB)]
   \<and> card (set (neededLibraries twoLibs)) = 2"
proof -
  from resolved_links_cardinality [OF collect_twoLibs]
  obtain linksToApply where
    resolved: "resolveLinks hexAddress twoLibs [] [(''A'', addrA), (''B'', addrB)] = Inr linksToApply"
    and size: "length linksToApply = card (set (neededLibraries twoLibs))"
    by blast
  from resolved have "linksToApply = [(''contracts/Libs.sol:A'', linkA), (''contracts/Libs.sol:B'', linkB)]"
    by (simp only: resolve_twoLibs sum.inject)
  with size have "card (set (neededLibraries twoLibs)) = 2" by simp
  with collect_twoLibs resolve_twoLibs show ?thesis by blast
qed

section \<open>Gas annotation of an ABI\<close>



section \<open>Abstract contracts\<close>




section \<open>Named signers\<close>



end
